theory Spec2Isabelle
  imports Main
begin

section \<open>Python string operations used by \<open>compile_code\<close>\<close>

text \<open>
  Source: \<open>src/explorer.py\<close>. A Python \<open>str\<close> is modelled as a \<open>string\<close>; a \<open>char\<close> stands
  for a code point below 256, so the tables of line boundaries and of whitespace below are
  Python's tables cut at 256 (the boundaries U+2028 and U+2029 and the wider Unicode spaces
  have no \<open>char\<close>).
\<close>

definition TAB :: char where
  "TAB = CHR 0x09"

definition NL :: char where
  "NL = CHR 0x0A"

definition CR :: char where
  "CR = CHR 0x0D"

text \<open>\<open>str.isspace\<close> on one character: what \<open>str.strip()\<close> removes.\<close>

definition isspace :: "char \<Rightarrow> bool" where
  "isspace c = (c \<in> {CHR 0x09, CHR 0x0A, CHR 0x0B, CHR 0x0C, CHR 0x0D,
                      CHR 0x1C, CHR 0x1D, CHR 0x1E, CHR 0x1F, CHR 0x20, CHR 0x85, CHR 0xA0})"

text \<open>\<open>s.strip()\<close>: leading and trailing whitespace removed.\<close>

definition strip :: "string \<Rightarrow> string" where
  "strip s = rev (dropWhile isspace (rev (dropWhile isspace s)))"

text \<open>The characters at which \<open>str.splitlines()\<close> ends a line (\<open>CR NL\<close> counts once).\<close>

definition is_linebreak :: "char \<Rightarrow> bool" where
  "is_linebreak c = (c \<in> {CHR 0x0A, CHR 0x0B, CHR 0x0C, CHR 0x0D,
                           CHR 0x1C, CHR 0x1D, CHR 0x1E, CHR 0x85})"

text \<open>
  \<open>s.splitlines()\<close>, with the characters of the current line accumulated in reverse.
  A line break ends the current line, also an empty one; the text left after the last
  line break is a line only when it is not empty.
\<close>

fun splitlines_from :: "string \<Rightarrow> string \<Rightarrow> string list" where
  "splitlines_from cur [] = (if cur = [] then [] else [rev cur])"
| "splitlines_from cur (c # cs) =
     (if c = CR \<and> cs \<noteq> [] \<and> hd cs = NL then rev cur # splitlines_from [] (tl cs)
      else if is_linebreak c then rev cur # splitlines_from [] cs
      else splitlines_from (c # cur) cs)"

definition splitlines :: "string \<Rightarrow> string list" where
  "splitlines s = splitlines_from [] s"

text \<open>\<open>s.startswith(sub)\<close> and \<open>sub in s\<close>.\<close>

fun startswith :: "string \<Rightarrow> string \<Rightarrow> bool" where
  "startswith s [] = True"
| "startswith [] (c # sub) = False"
| "startswith (d # s) (c # sub) = (d = c \<and> startswith s sub)"

fun contains :: "string \<Rightarrow> string \<Rightarrow> bool" where
  "contains sub [] = (sub = [])"
| "contains sub (c # s) = (startswith (c # s) sub \<or> contains sub s)"

text \<open>
  \<open>line.split('\t', 1)\<close>: the line itself when it has no tab, otherwise the text before
  the first tab and the text after it.
\<close>

definition split_tab :: "string \<Rightarrow> string list" where
  "split_tab line =
     (case dropWhile (\<lambda>c. c \<noteq> TAB) line of
        [] \<Rightarrow> [line]
      | _ # rest \<Rightarrow> [takeWhile (\<lambda>c. c \<noteq> TAB) line, rest])"

text \<open>\<open>sep.join(parts)\<close>.\<close>

fun join :: "string \<Rightarrow> string list \<Rightarrow> string" where
  "join sep [] = []"
| "join sep [p] = p"
| "join sep (p # q # ps) = p @ sep @ join sep (q # ps)"

section \<open>The clean-up of the disassembler's listing\<close>

text \<open>
  Lines 253 to 270 of \<open>compile_code\<close>. The loop carries \<open>start_printing\<close> and
  \<open>clean_lines\<close>; \<open>clean_step\<close> is one iteration of its body:
  \<^verbatim>\<open>
  if "Disassembly of section" in line:
      start_printing = True
      continue
  if start_printing and line.strip():
      parts = line.split('\t', 1)
      if len(parts) > 1:
          clean_lines.append("\t" + parts[1])
      else:
          clean_lines.append(line)
  \<close>
\<close>

definition MARKER :: string where
  "MARKER = ''Disassembly of section''"

fun clean_step :: "bool \<times> string list \<Rightarrow> string \<Rightarrow> bool \<times> string list" where
  "clean_step (start_printing, clean_lines) line =
     (if contains MARKER line then (True, clean_lines)
      else if start_printing \<and> strip line \<noteq> [] then
        (let parts = split_tab line in
         if length parts > 1 then (start_printing, clean_lines @ [TAB # parts ! 1])
         else (start_printing, clean_lines @ [line]))
      else (start_printing, clean_lines))"

definition clean_loop :: "string list \<Rightarrow> string list" where
  "clean_loop lines = snd (foldl clean_step (False, []) lines)"

definition normalize :: "string \<Rightarrow> string" where
  "normalize out = join [NL] (clean_loop (splitlines out))"

section \<open>The world outside the program\<close>

text \<open>
  \<open>compile_code\<close> creates a directory, writes a file and runs up to four child processes.
  The model passes a \<open>world\<close> through these steps: the paths that exist, the calls of
  \<open>subprocess.run\<close> made so far (each with its \<open>timeout\<close> and \<open>cwd\<close> arguments, \<open>None\<close>
  when the call gives none), and the directories \<open>tempfile\<close> has created so far.
\<close>

type_synonym path = string

record invocation =
  argv :: "string list"
  timeout :: "nat option"
  cwd :: "path option"

record world =
  files :: "path set"
  calls :: "invocation list"
  workspaces :: "path list"

text \<open>
  What a child process does when it is left alone: it cannot be started (or its output
  cannot be read) and \<open>subprocess.run\<close> raises an exception with the given text; it ends
  after so many milliseconds with a return code, standard output and standard error; or it
  never ends.
\<close>

datatype behaviour = Run_error string | Ends nat int string string | Never_ends

text \<open>
  Everything the program does not decide: the directory of the script, the names drawn by
  \<open>tempfile\<close>'s random generator (at most \<open>TMP_MAX\<close> of them are tried), the errors of
  \<open>os.mkdir\<close> and of writing a file, what each child process does and which paths exist
  after it, and the text of a \<open>TimeoutExpired\<close> exception.
\<close>

record env =
  base_dir :: path
  temp_names :: "string list"
  mkdir_error :: "path \<Rightarrow> string option"
  write_error :: "path \<Rightarrow> string \<Rightarrow> string option"
  child :: "invocation \<Rightarrow> path set \<Rightarrow> behaviour \<times> path set"
  timeout_text :: "invocation \<Rightarrow> string"

text \<open>
  The outcome of a step: it returns a value, it raises an exception (with \<open>str(e)\<close>), or
  it never returns.
\<close>

datatype 'a outcome = Returns 'a | Raises string | Blocks

record completed =
  returncode :: int
  stdout :: string
  stderr :: string

text \<open>
  \<open>subprocess.run(cmd, capture_output=True, text=True, timeout=t, cwd=d)\<close>. With a timeout
  of \<open>t\<close> seconds a child that has not ended by then is killed and \<open>TimeoutExpired\<close> is
  raised; without a timeout the call waits for the child, for ever if need be.
\<close>

definition subprocess_run :: "env \<Rightarrow> invocation \<Rightarrow> world \<Rightarrow> completed outcome \<times> world" where
  "subprocess_run e cmd w =
     (let (b, fs) = child e cmd (files w);
          w' = w\<lparr>files := fs, calls := calls w @ [cmd]\<rparr>
      in case b of
           Run_error msg \<Rightarrow> (Raises msg, w')
         | Ends ms rc out err \<Rightarrow>
             (case timeout cmd of
                None \<Rightarrow> (Returns \<lparr>returncode = rc, stdout = out, stderr = err\<rparr>, w')
              | Some t \<Rightarrow>
                  if ms > 1000 * t then (Raises (timeout_text e cmd), w')
                  else (Returns \<lparr>returncode = rc, stdout = out, stderr = err\<rparr>, w'))
         | Never_ends \<Rightarrow>
             (case timeout cmd of
                None \<Rightarrow> (Blocks, w')
              | Some t \<Rightarrow> (Raises (timeout_text e cmd), w')))"

text \<open>\<open>os.path.join(a, b)\<close> on POSIX.\<close>

definition os_path_join :: "path \<Rightarrow> path \<Rightarrow> path" where
  "os_path_join a b =
     (if startswith b ''/'' then b
      else if a = [] \<or> last a = CHR ''/'' then a @ b
      else a @ ''/'' @ b)"

text \<open>
  \<open>tempfile.mkdtemp(dir=d)\<close>, which \<open>tempfile.TemporaryDirectory\<close> calls: each drawn name is
  tried in turn, a name that exists already is skipped, any other error of \<open>os.mkdir\<close> is
  raised, and running out of names raises \<open>FileExistsError\<close>.
\<close>

fun mkdtemp :: "env \<Rightarrow> path \<Rightarrow> string list \<Rightarrow> path set \<Rightarrow> string + path" where
  "mkdtemp e d [] fs = Inl ''[Errno 17] No usable temporary directory name found''"
| "mkdtemp e d (name # names) fs =
     (let file = os_path_join d (''tmp'' @ name)
      in if file \<in> fs then mkdtemp e d names fs
         else case mkdir_error e file of
                Some msg \<Rightarrow> Inl msg
              | None \<Rightarrow> Inr file)"

text \<open>
  \<open>shutil.rmtree(d)\<close>, run when the \<open>with\<close> block of the temporary directory is left: the
  directory and every path below it are gone.
\<close>

definition below :: "path \<Rightarrow> path \<Rightarrow> bool" where
  "below d p = (p = d \<or> startswith p (d @ ''/''))"

definition rmtree :: "path \<Rightarrow> path set \<Rightarrow> path set" where
  "rmtree d fs = {p \<in> fs. \<not> below d p}"

section \<open>The request handler\<close>

definition GCC_BINARY :: path where
  "GCC_BINARY = ''/usr/bin/gcc''"

definition CCC_BINARY :: "env \<Rightarrow> path" where
  "CCC_BINARY e = os_path_join (base_dir e) ''claudes-c-compiler/target/release/ccc''"

definition TEMP_DIR :: path where
  "TEMP_DIR = ''/dev/shm''"

text \<open>\<open>data.get(key, default)\<close>.\<close>

definition dict_get :: "('k \<rightharpoonup> 'v) \<Rightarrow> 'k \<Rightarrow> 'v \<Rightarrow> 'v" where
  "dict_get d k dflt = (case d k of None \<Rightarrow> dflt | Some v \<Rightarrow> v)"

text \<open>
  One side of the response: \<open>{"success": True, "asm": a}\<close> or
  \<open>{"success": False, "error": m}\<close>.
\<close>

datatype backend_result = Success (asm: string) | Failure (error: string)

type_synonym results = "string \<rightharpoonup> backend_result"

text \<open>
  Lines 199 to 210, the first \<open>try\<close> block:
  \<^verbatim>\<open>
  cmd = [GCC_BINARY, opt_level, "-S", "-fverbose-asm", "-o", "-", src]
  proc = subprocess.run(cmd, capture_output=True, text=True, timeout=5)
  if proc.returncode == 0:
      results["gcc"] = {"success": True, "asm": proc.stdout}
  else:
      results["gcc"] = {"success": False, "error": proc.stderr}
  \<close>
  with \<open>except Exception as e\<close> storing \<open>str(e)\<close> as the error.
\<close>

definition gcc_cmd :: "string \<Rightarrow> path \<Rightarrow> invocation" where
  "gcc_cmd opt_level src =
     \<lparr>argv = [GCC_BINARY, opt_level, ''-S'', ''-fverbose-asm'', ''-o'', ''-'', src],
      timeout = Some 5, cwd = None\<rparr>"

definition gcc_block :: "env \<Rightarrow> string \<Rightarrow> path \<Rightarrow> world \<Rightarrow> backend_result outcome \<times> world" where
  "gcc_block e opt_level src w =
     (case subprocess_run e (gcc_cmd opt_level src) w of
        (Returns proc, w') \<Rightarrow>
          (if returncode proc = 0 then (Returns (Success (stdout proc)), w')
           else (Returns (Failure (stderr proc)), w'))
      | (Raises msg, w') \<Rightarrow> (Returns (Failure msg), w')
      | (Blocks, w') \<Rightarrow> (Blocks, w'))"

text \<open>
  Lines 215 to 277, the second \<open>try\<close> block. The probe of the cross \<open>objdump\<close> (lines 234
  to 238) is a call without \<open>timeout\<close> inside a bare \<open>except\<close>; its return code is not read.
\<close>

definition ccc_cmd :: "env \<Rightarrow> path \<Rightarrow> path \<Rightarrow> path \<Rightarrow> invocation" where
  "ccc_cmd e src out_bin temp_dir =
     \<lparr>argv = [CCC_BINARY e, ''-c'', src, ''-o'', out_bin],
      timeout = Some 5, cwd = Some temp_dir\<rparr>"

definition probe_cmd :: invocation where
  "probe_cmd = \<lparr>argv = [''x86_64-linux-gnu-objdump'', ''--version''], timeout = None, cwd = None\<rparr>"

definition dis_cmd :: "string \<Rightarrow> path \<Rightarrow> invocation" where
  "dis_cmd objdump_cmd out_bin =
     \<lparr>argv = [objdump_cmd, ''-d'', ''-M'', ''intel'', ''--no-show-raw-insn'', out_bin],
      timeout = Some 5, cwd = None\<rparr>"

definition select_objdump :: "env \<Rightarrow> world \<Rightarrow> string outcome \<times> world" where
  "select_objdump e w =
     (case subprocess_run e probe_cmd w of
        (Returns proc, w') \<Rightarrow> (Returns ''x86_64-linux-gnu-objdump'', w')
      | (Raises msg, w') \<Rightarrow> (Returns ''objdump'', w')
      | (Blocks, w') \<Rightarrow> (Blocks, w'))"

definition disassemble :: "env \<Rightarrow> path \<Rightarrow> world \<Rightarrow> backend_result outcome \<times> world" where
  "disassemble e out_bin w =
     (case select_objdump e w of
        (Returns objdump_cmd, w') \<Rightarrow>
          (case subprocess_run e (dis_cmd objdump_cmd out_bin) w' of
             (Returns dis, w'') \<Rightarrow>
               (if returncode dis = 0 then (Returns (Success (normalize (stdout dis))), w'')
                else (Returns (Failure (''Objdump failed: '' @ stderr dis)), w''))
           | (Raises msg, w'') \<Rightarrow> (Returns (Failure msg), w'')
           | (Blocks, w'') \<Rightarrow> (Blocks, w''))
      | (Raises msg, w') \<Rightarrow> (Returns (Failure msg), w')
      | (Blocks, w') \<Rightarrow> (Blocks, w'))"

definition ccc_block :: "env \<Rightarrow> path \<Rightarrow> path \<Rightarrow> world \<Rightarrow> backend_result outcome \<times> world" where
  "ccc_block e src temp_dir w =
     (let out_bin = os_path_join temp_dir ''ccc_out''
      in case subprocess_run e (ccc_cmd e src out_bin temp_dir) w of
           (Returns proc, w') \<Rightarrow>
             (if returncode proc \<noteq> 0 then
                (let err = (if stderr proc \<noteq> [] then stderr proc else stdout proc)
                 in (Returns (Failure (if err \<noteq> [] then err else ''Unknown CCC Error'')), w'))
              else if out_bin \<in> files w' then disassemble e out_bin w'
              else (Returns (Failure ''Binary missing''), w'))
         | (Raises msg, w') \<Rightarrow> (Returns (Failure msg), w')
         | (Blocks, w') \<Rightarrow> (Blocks, w'))"

text \<open>
  The body of the \<open>with\<close> block, lines 190 to 279: the source file is written outside
  both \<open>try\<close> blocks, then the two blocks run one after the other and fill \<open>results\<close>.
\<close>

definition with_body :: "env \<Rightarrow> string \<Rightarrow> string \<Rightarrow> path \<Rightarrow> world \<Rightarrow> results outcome \<times> world" where
  "with_body e code opt_level temp_dir w =
     (let src = os_path_join temp_dir ''test.c''
      in case write_error e src code of
           Some msg \<Rightarrow> (Raises msg, w)
         | None \<Rightarrow>
             (case gcc_block e opt_level src (w\<lparr>files := insert src (files w)\<rparr>) of
                (Returns g, w1) \<Rightarrow>
                  (case ccc_block e src temp_dir w1 of
                     (Returns c, w2) \<Rightarrow> (Returns (Map.empty(''gcc'' \<mapsto> g, ''ccc'' \<mapsto> c)), w2)
                   | (Raises msg, w2) \<Rightarrow> (Raises msg, w2)
                   | (Blocks, w2) \<Rightarrow> (Blocks, w2))
              | (Raises msg, w1) \<Rightarrow> (Raises msg, w1)
              | (Blocks, w1) \<Rightarrow> (Blocks, w1)))"

text \<open>
  \<open>compile_code\<close>, lines 178 to 279, on the JSON body \<open>data\<close>. Leaving the \<open>with\<close> block, by
  \<open>return\<close> or by an exception, removes the temporary directory; a call that never returns
  never leaves it.
\<close>

definition compile_code :: "env \<Rightarrow> (string \<rightharpoonup> string) \<Rightarrow> world \<Rightarrow> results outcome \<times> world" where
  "compile_code e data w =
     (let code = dict_get data ''code'' '''';
          opt_level = dict_get data ''opt'' ''-O0''
      in if strip code = [] then
           (Returns (Map.empty(''gcc'' \<mapsto> Failure ''No code'', ''ccc'' \<mapsto> Failure ''No code'')), w)
         else
           case mkdtemp e TEMP_DIR (temp_names e) (files w) of
             Inl msg \<Rightarrow> (Raises msg, w)
           | Inr temp_dir \<Rightarrow>
               (case with_body e code opt_level temp_dir
                       (w\<lparr>files := insert temp_dir (files w),
                          workspaces := workspaces w @ [temp_dir]\<rparr>) of
                  (Returns r, w') \<Rightarrow> (Returns r, w'\<lparr>files := rmtree temp_dir (files w')\<rparr>)
                | (Raises msg, w') \<Rightarrow> (Raises msg, w'\<lparr>files := rmtree temp_dir (files w')\<rparr>)
                | (Blocks, w') \<Rightarrow> (Blocks, w')))"

section \<open>The calls of \<open>subprocess.run\<close>, each in the state in which it is made\<close>

text \<open>
  Names for the four calls of \<open>compile_code\<close> when the temporary directory is \<open>d\<close>: the
  \<open>gcc\<close> call of line 203 runs once \<open>d\<close> and \<open>test.c\<close> exist, the \<open>ccc\<close> call of line 222
  runs in the world the \<open>gcc\<close> call left, the probe of line 235 in the world the \<open>ccc\<close>
  call left, and the \<open>objdump\<close> call of line 240, with the tool selected, after the probe.
  The theorems below state what \<open>compile_code\<close> returns in terms of what these calls do.
\<close>

definition gcc_run :: "env \<Rightarrow> (string \<rightharpoonup> string) \<Rightarrow> world \<Rightarrow> path \<Rightarrow> completed outcome \<times> world" where
  "gcc_run e data w d =
     subprocess_run e (gcc_cmd (dict_get data ''opt'' ''-O0'') (os_path_join d ''test.c''))
       (w\<lparr>files := insert (os_path_join d ''test.c'') (insert d (files w)),
          workspaces := workspaces w @ [d]\<rparr>)"

definition ccc_run :: "env \<Rightarrow> (string \<rightharpoonup> string) \<Rightarrow> world \<Rightarrow> path \<Rightarrow> completed outcome \<times> world" where
  "ccc_run e data w d =
     subprocess_run e (ccc_cmd e (os_path_join d ''test.c'') (os_path_join d ''ccc_out'') d)
       (snd (gcc_run e data w d))"

definition probe_run :: "env \<Rightarrow> (string \<rightharpoonup> string) \<Rightarrow> world \<Rightarrow> path \<Rightarrow> completed outcome \<times> world" where
  "probe_run e data w d = subprocess_run e probe_cmd (snd (ccc_run e data w d))"

definition objdump_run :: "env \<Rightarrow> (string \<rightharpoonup> string) \<Rightarrow> world \<Rightarrow> path \<Rightarrow> string
                             \<Rightarrow> completed outcome \<times> world" where
  "objdump_run e data w d tool =
     subprocess_run e (dis_cmd tool (os_path_join d ''ccc_out'')) (snd (probe_run e data w d))"

section \<open>The normalization as the specification words it\<close>

text \<open>
  The specification's account of the clean-up, word for word: drop every line before the
  first marker line (and that marker line), drop blank lines after it, replace a line that
  has a tab by a tab and the text after its first tab, keep the other lines, join with
  newlines. \<open>spec_normalize\<close> is compared with \<open>normalize\<close> below.
\<close>

definition blank :: "string \<Rightarrow> bool" where
  "blank l = list_all isspace l"

definition after_first_tab :: "string \<Rightarrow> string" where
  "after_first_tab l = tl (dropWhile (\<lambda>c. c \<noteq> TAB) l)"

definition strip_address :: "string \<Rightarrow> string" where
  "strip_address l = (if TAB \<in> set l then TAB # after_first_tab l else l)"

definition spec_normalize :: "string \<Rightarrow> string" where
  "spec_normalize out =
     join [NL] (map strip_address (filter (\<lambda>l. \<not> blank l)
       (tl (dropWhile (\<lambda>l. \<not> contains MARKER l) (splitlines out)))))"

section \<open>Concrete runs\<close>

text \<open>
  A listing as in the specification's example, and a listing with two sections, as
  \<open>objdump -d\<close> prints for an object with more than one code section.
\<close>

definition example_listing :: string where
  "example_listing =
     ''a.out:     file format elf64-x86-64'' @ [NL] @ [NL] @
     ''Disassembly of section .text:'' @ [NL] @
     ''  10:'' @ [TAB] @ ''mov eax, 0''"

definition two_sections :: string where
  "two_sections =
     ''Disassembly of section .init:'' @ [NL] @
     ''    1000:'' @ [TAB] @ ''ret'' @ [NL] @
     ''Disassembly of section .text:'' @ [NL] @
     ''    1040:'' @ [TAB] @ ''xor    eax,eax'' @ [NL]"

text \<open>
  A scripted machine: each entry gives the leading arguments of a command line, what the
  child does, and the files it leaves behind. A command that matches no entry cannot be
  started.
\<close>

fun scripted :: "(string list \<times> behaviour \<times> path list) list \<Rightarrow> invocation \<Rightarrow> path set
                   \<Rightarrow> behaviour \<times> path set" where
  "scripted [] cmd fs = (Run_error ''[Errno 2] No such file or directory'', fs)"
| "scripted ((key, b, new) # rest) cmd fs =
     (if take (length key) (argv cmd) = key then (b, fs \<union> set new)
      else scripted rest cmd fs)"

definition host :: "(string list \<times> behaviour \<times> path list) list \<Rightarrow> env" where
  "host script =
     \<lparr>base_dir = ''/srv/app'',
      temp_names = [''k3x9q2ab''],
      mkdir_error = (\<lambda>p. None),
      write_error = (\<lambda>p s. None),
      child = scripted script,
      timeout_text = (\<lambda>cmd. ''Command timed out after 5 seconds'')\<rparr>"

definition world0 :: world where
  "world0 = \<lparr>files = {''/dev/shm''}, calls = [], workspaces = []\<rparr>"

definition ccc_path :: path where
  "ccc_path = ''/srv/app/claudes-c-compiler/target/release/ccc''"

definition work_dir :: path where
  "work_dir = ''/dev/shm/tmpk3x9q2ab''"

definition request_main :: "string \<rightharpoonup> string" where
  "request_main = [''code'' \<mapsto> ''int main(){return 0;}'', ''opt'' \<mapsto> ''-O2'']"

definition request_no_opt :: "string \<rightharpoonup> string" where
  "request_no_opt = [''code'' \<mapsto> ''int main(){return 0;}'']"

definition request_odd_opt :: "string \<rightharpoonup> string" where
  "request_odd_opt = [''code'' \<mapsto> ''int main(){return 0;}'', ''opt'' \<mapsto> ''--version'']"

definition request_blank :: "string \<rightharpoonup> string" where
  "request_blank = [''code'' \<mapsto> [CHR 0x20, TAB, NL], ''opt'' \<mapsto> ''-O2'']"

text \<open>Both compilers and both disassemblers work.\<close>

definition all_well :: env where
  "all_well = host
     [([GCC_BINARY], Ends 90 0 ''main:'' [], []),
      ([ccc_path], Ends 70 0 [] [], [work_dir @ ''/ccc_out'']),
      ([''x86_64-linux-gnu-objdump'', ''--version''], Ends 5 0 ''GNU objdump'' [], []),
      ([''x86_64-linux-gnu-objdump'', ''-d''], Ends 20 0 example_listing [], [])]"

text \<open>The cross \<open>objdump\<close> is not installed; the system one works.\<close>

definition no_cross_objdump :: env where
  "no_cross_objdump = host
     [([GCC_BINARY], Ends 90 0 ''main:'' [], []),
      ([ccc_path], Ends 70 0 [] [], [work_dir @ ''/ccc_out'']),
      ([''objdump'', ''-d''], Ends 20 0 example_listing [], [])]"

text \<open>
  \<open>gcc\<close> is killed by a signal (return code \<open>-9\<close>, nothing on either stream); \<open>ccc\<close>
  reports a compile error on standard output only.
\<close>

definition gcc_killed :: env where
  "gcc_killed = host
     [([GCC_BINARY], Ends 120 (- 9) [] [], []),
      ([ccc_path], Ends 70 1 ''error: expected expression'' [], [])]"

text \<open>\<open>gcc\<close> does not end within five seconds; \<open>ccc\<close> exits 0 and writes no binary.\<close>

definition gcc_slow_no_binary :: env where
  "gcc_slow_no_binary = host
     [([GCC_BINARY], Never_ends, []),
      ([ccc_path], Ends 70 0 [] [], [])]"


text \<open>The probe of the cross \<open>objdump\<close> never ends.\<close>

definition probe_hangs :: env where
  "probe_hangs = host
     [([GCC_BINARY], Ends 90 0 ''main:'' [], []),
      ([ccc_path], Ends 70 0 [] [], [work_dir @ ''/ccc_out'']),
      ([''x86_64-linux-gnu-objdump'', ''--version''], Never_ends, [])]"

text \<open>\<open>gcc\<close> does not end within five seconds and \<open>ccc\<close> is not installed.\<close>

definition both_fail :: env where
  "both_fail = host [([GCC_BINARY], Never_ends, [])]"

text \<open>
  The cross \<open>objdump\<close> is installed but broken: every run of it, the probe included,
  exits with status 127. The system \<open>objdump\<close> works.
\<close>

definition cross_objdump_broken :: env where
  "cross_objdump_broken = host
     [([GCC_BINARY], Ends 90 0 ''main:'' [], []),
      ([ccc_path], Ends 70 0 [] [], [work_dir @ ''/ccc_out'']),
      ([''x86_64-linux-gnu-objdump''], Ends 3 127 [] ''error while loading shared libraries'', []),
      ([''objdump'', ''-d''], Ends 20 0 example_listing [], [])]"




lemmas run_defs = compile_code_def with_body_def gcc_block_def ccc_block_def disassemble_def
  select_objdump_def subprocess_run_def gcc_cmd_def ccc_cmd_def probe_cmd_def dis_cmd_def
  gcc_run_def ccc_run_def probe_run_def objdump_run_def
  os_path_join_def dict_get_def CCC_BINARY_def GCC_BINARY_def TEMP_DIR_def strip_def isspace_def
  rmtree_def below_def host_def world0_def ccc_path_def work_dir_def TAB_def NL_def CR_def Let_def

lemmas text_defs = normalize_def clean_loop_def splitlines_def is_linebreak_def MARKER_def
  strip_def isspace_def split_tab_def blank_def strip_address_def after_first_tab_def
  spec_normalize_def TAB_def NL_def CR_def

section \<open>Facts about the string operations\<close>

lemma dropWhile_head: "dropWhile P l = x # xs \<Longrightarrow> \<not> P x"
  by (induction l) (auto split: if_splits)

lemma strip_empty_iff: "strip l = [] \<longleftrightarrow> list_all isspace l"
proof -
  have "strip l = [] \<longleftrightarrow> (\<forall>x\<in>set (dropWhile isspace l). isspace x)"
    by (simp add: strip_def)
  also have "\<dots> \<longleftrightarrow> dropWhile isspace l = []"
  proof (cases "dropWhile isspace l")
    case Nil
    show ?thesis unfolding Nil by simp
  next
    case (Cons x xs)
    then have "\<not> isspace x" by (rule dropWhile_head)
    with Cons show ?thesis by auto
  qed
  also have "\<dots> \<longleftrightarrow> list_all isspace l"
    by (simp add: list_all_iff)
  finally show ?thesis .
qed

lemma tab_found: "dropWhile (\<lambda>c. c \<noteq> TAB) l = x # xs \<Longrightarrow> TAB \<in> set l"
  by (induction l) (auto split: if_splits)

lemma split_tab_length: "Suc 0 < length (split_tab l) \<longleftrightarrow> TAB \<in> set l"
  by (auto simp: split_tab_def tab_found split: list.splits)

lemma split_tab_second: "TAB \<in> set l \<Longrightarrow> split_tab l ! Suc 0 = after_first_tab l"
  by (auto simp: split_tab_def after_first_tab_def split: list.splits)

text \<open>\<open>sub in s\<close> holds exactly when \<open>s\<close> is some text, then \<open>sub\<close>, then some text.\<close>

lemma startswith_iff: "startswith s sub \<longleftrightarrow> (\<exists>post. s = sub @ post)"
  by (induction s sub rule: startswith.induct) auto

lemma contains_iff: "contains sub s \<longleftrightarrow> (\<exists>pre post. s = pre @ sub @ post)"
proof (induction s)
  case Nil
  then show ?case by simp
next
  case (Cons c s)
  show ?case
  proof
    assume "contains sub (c # s)"
    then consider "startswith (c # s) sub" | "contains sub s" by auto
    then show "\<exists>pre post. c # s = pre @ sub @ post"
    proof cases
      case 1
      then obtain post where "c # s = sub @ post" by (auto simp: startswith_iff)
      then have "c # s = [] @ sub @ post" by simp
      then show ?thesis by blast
    next
      case 2
      with Cons obtain pre post where "s = pre @ sub @ post" by blast
      then have "c # s = (c # pre) @ sub @ post" by simp
      then show ?thesis by blast
    qed
  next
    assume "\<exists>pre post. c # s = pre @ sub @ post"
    then obtain pre post where eq: "c # s = pre @ sub @ post" by blast
    show "contains sub (c # s)"
    proof (cases pre)
      case Nil
      with eq have "startswith (c # s) sub" by (auto simp: startswith_iff)
      then show ?thesis by simp
    next
      case (Cons p pre')
      with eq have "s = pre' @ sub @ post" by simp
      with Cons.IH have "contains sub s" by blast
      then show ?thesis by simp
    qed
  qed
qed

section \<open>The loop of the clean-up\<close>

lemma clean_step_cases:
  "clean_step (b, acc) l =
     (if contains MARKER l then (True, acc)
      else if b \<and> \<not> blank l then (b, acc @ [strip_address l])
      else (b, acc))"
  by (simp add: strip_empty_iff blank_def Let_def split_tab_length split_tab_second
      strip_address_def)

lemma foldl_clean_started:
  "foldl clean_step (True, acc) ls
     = (True, acc @ map strip_address (filter (\<lambda>l. \<not> contains MARKER l \<and> \<not> blank l) ls))"
  by (induction ls arbitrary: acc) (simp_all add: clean_step_cases del: clean_step.simps)

lemma foldl_clean_waiting:
  "snd (foldl clean_step (False, acc) ls)
     = acc @ map strip_address (filter (\<lambda>l. \<not> contains MARKER l \<and> \<not> blank l)
              (dropWhile (\<lambda>l. \<not> contains MARKER l) ls))"
  by (induction ls) (simp_all add: clean_step_cases foldl_clean_started del: clean_step.simps)

lemma normalize_example: "normalize example_listing = TAB # ''mov eax, 0''"
  by (simp add: text_defs example_listing_def)

section \<open>Facts about the calls and the two blocks\<close>

lemma run_calls: "calls (snd (subprocess_run e cmd w)) = calls w @ [cmd]"
  by (simp add: subprocess_run_def Let_def split: prod.splits behaviour.splits option.splits)

lemma run_workspaces: "workspaces (snd (subprocess_run e cmd w)) = workspaces w"
  by (simp add: subprocess_run_def Let_def split: prod.splits behaviour.splits option.splits)

lemma run_blocks_iff:
  "fst (subprocess_run e cmd w) = Blocks
     \<longleftrightarrow> timeout cmd = None \<and> fst (child e cmd (files w)) = Never_ends"
  by (auto simp: subprocess_run_def Let_def split: prod.splits behaviour.splits option.splits)

lemma gcc_block_returns: "\<exists>g. fst (gcc_block e opt src w) = Returns g"
proof (cases "subprocess_run e (gcc_cmd opt src) w")
  case (Pair r w')
  have "r \<noteq> Blocks"
    using run_blocks_iff [of e "gcc_cmd opt src" w] Pair by (simp add: gcc_cmd_def)
  with Pair show ?thesis
    by (cases r) (simp_all add: gcc_block_def)
qed

lemma gcc_block_world: "snd (gcc_block e opt src w) = snd (subprocess_run e (gcc_cmd opt src) w)"
proof (cases "subprocess_run e (gcc_cmd opt src) w")
  case (Pair r w')
  then show ?thesis
    by (cases r) (simp_all add: gcc_block_def)
qed




lemma select_objdump_world: "snd (select_objdump e w) = snd (subprocess_run e probe_cmd w)"
proof (cases "subprocess_run e probe_cmd w")
  case (Pair r w')
  then show ?thesis
    by (cases r) (simp_all add: select_objdump_def)
qed

lemma select_objdump_cases:
  "fst (select_objdump e w) =
     (case fst (child e probe_cmd (files w)) of
        Run_error m \<Rightarrow> Returns ''objdump''
      | Ends ms rc out err \<Rightarrow> Returns ''x86_64-linux-gnu-objdump''
      | Never_ends \<Rightarrow> Blocks)"
  by (simp add: select_objdump_def subprocess_run_def probe_cmd_def Let_def
      split: prod.splits behaviour.splits)

lemma select_objdump_tool:
  "fst (select_objdump e w) = Returns tool
     \<Longrightarrow> tool = ''objdump'' \<or> tool = ''x86_64-linux-gnu-objdump''"
  by (auto simp: select_objdump_cases split: behaviour.splits)

lemma disassemble_blocked:
  "fst (select_objdump e w) = Blocks \<Longrightarrow> disassemble e out_bin w = (Blocks, snd (select_objdump e w))"
  by (cases "select_objdump e w") (simp add: disassemble_def)

lemma disassemble_selected:
  assumes "fst (select_objdump e w) = Returns tool"
  shows "\<exists>c. fst (disassemble e out_bin w) = Returns c"
    and "snd (disassemble e out_bin w)
           = snd (subprocess_run e (dis_cmd tool out_bin) (snd (select_objdump e w)))"
    and "fst (subprocess_run e (dis_cmd tool out_bin) (snd (select_objdump e w))) = Raises m
           \<Longrightarrow> fst (disassemble e out_bin w) = Returns (Failure m)"
    and "fst (subprocess_run e (dis_cmd tool out_bin) (snd (select_objdump e w))) = Returns p
           \<Longrightarrow> returncode p \<noteq> 0
           \<Longrightarrow> fst (disassemble e out_bin w) = Returns (Failure (''Objdump failed: '' @ stderr p))"
    and "fst (subprocess_run e (dis_cmd tool out_bin) (snd (select_objdump e w))) = Returns p
           \<Longrightarrow> returncode p = 0
           \<Longrightarrow> fst (disassemble e out_bin w) = Returns (Success (normalize (stdout p)))"
proof -
  obtain w1 where sel: "select_objdump e w = (Returns tool, w1)"
    using assms by (cases "select_objdump e w") simp
  obtain r w2 where run: "subprocess_run e (dis_cmd tool out_bin) w1 = (r, w2)"
    by (cases "subprocess_run e (dis_cmd tool out_bin) w1")
  have nb: "r \<noteq> Blocks"
    using run_blocks_iff [of e "dis_cmd tool out_bin" w1] run by (simp add: dis_cmd_def)
  from sel run nb show "\<exists>c. fst (disassemble e out_bin w) = Returns c"
    by (cases r) (simp_all add: disassemble_def)
  from sel run nb show "snd (disassemble e out_bin w)
      = snd (subprocess_run e (dis_cmd tool out_bin) (snd (select_objdump e w)))"
    by (cases r) (simp_all add: disassemble_def)
  from sel run show "fst (subprocess_run e (dis_cmd tool out_bin) (snd (select_objdump e w))) = Raises m
      \<Longrightarrow> fst (disassemble e out_bin w) = Returns (Failure m)"
    by (simp add: disassemble_def)
  from sel run show "fst (subprocess_run e (dis_cmd tool out_bin) (snd (select_objdump e w))) = Returns p
      \<Longrightarrow> returncode p \<noteq> 0
      \<Longrightarrow> fst (disassemble e out_bin w) = Returns (Failure (''Objdump failed: '' @ stderr p))"
    by (simp add: disassemble_def)
  from sel run show "fst (subprocess_run e (dis_cmd tool out_bin) (snd (select_objdump e w))) = Returns p
      \<Longrightarrow> returncode p = 0
      \<Longrightarrow> fst (disassemble e out_bin w) = Returns (Success (normalize (stdout p)))"
    by (simp add: disassemble_def)
qed

lemma ccc_run_not_blocked: "fst (subprocess_run e (ccc_cmd e src out_bin d) w) \<noteq> Blocks"
  by (simp add: run_blocks_iff ccc_cmd_def)

lemma ccc_block_raised:
  "fst (subprocess_run e (ccc_cmd e src (os_path_join d ''ccc_out'') d) w) = Raises m
     \<Longrightarrow> ccc_block e src d w
           = (Returns (Failure m), snd (subprocess_run e (ccc_cmd e src (os_path_join d ''ccc_out'') d) w))"
  by (cases "subprocess_run e (ccc_cmd e src (os_path_join d ''ccc_out'') d) w")
     (simp add: ccc_block_def)

lemma ccc_block_nonzero:
  "fst (subprocess_run e (ccc_cmd e src (os_path_join d ''ccc_out'') d) w) = Returns p
     \<Longrightarrow> returncode p \<noteq> 0
     \<Longrightarrow> ccc_block e src d w
           = (Returns (Failure (if stderr p \<noteq> [] then stderr p
                                else if stdout p \<noteq> [] then stdout p
                                else ''Unknown CCC Error'')),
              snd (subprocess_run e (ccc_cmd e src (os_path_join d ''ccc_out'') d) w))"
  by (cases "subprocess_run e (ccc_cmd e src (os_path_join d ''ccc_out'') d) w")
     (simp add: ccc_block_def)

lemma ccc_block_missing:
  "fst (subprocess_run e (ccc_cmd e src (os_path_join d ''ccc_out'') d) w) = Returns p
     \<Longrightarrow> returncode p = 0
     \<Longrightarrow> os_path_join d ''ccc_out''
           \<notin> files (snd (subprocess_run e (ccc_cmd e src (os_path_join d ''ccc_out'') d) w))
     \<Longrightarrow> ccc_block e src d w
           = (Returns (Failure ''Binary missing''),
              snd (subprocess_run e (ccc_cmd e src (os_path_join d ''ccc_out'') d) w))"
  by (cases "subprocess_run e (ccc_cmd e src (os_path_join d ''ccc_out'') d) w")
     (simp add: ccc_block_def)

lemma ccc_block_present:
  "fst (subprocess_run e (ccc_cmd e src (os_path_join d ''ccc_out'') d) w) = Returns p
     \<Longrightarrow> returncode p = 0
     \<Longrightarrow> os_path_join d ''ccc_out''
           \<in> files (snd (subprocess_run e (ccc_cmd e src (os_path_join d ''ccc_out'') d) w))
     \<Longrightarrow> ccc_block e src d w
           = disassemble e (os_path_join d ''ccc_out'')
               (snd (subprocess_run e (ccc_cmd e src (os_path_join d ''ccc_out'') d) w))"
  by (cases "subprocess_run e (ccc_cmd e src (os_path_join d ''ccc_out'') d) w")
     (simp add: ccc_block_def)

lemma disassemble_never_raises: "fst (disassemble e out_bin w) \<noteq> Raises m"
proof (cases "fst (select_objdump e w)")
  case (Returns tool)
  from disassemble_selected(1) [OF this] obtain c where "fst (disassemble e out_bin w) = Returns c"
    by blast
  then show ?thesis by simp
next
  case (Raises m')
  then show ?thesis
    by (simp add: select_objdump_cases split: behaviour.splits)
next
  case Blocks
  then show ?thesis by (simp add: disassemble_blocked)
qed

lemma ccc_block_never_raises: "fst (ccc_block e src d w) \<noteq> Raises m"
proof (cases "fst (subprocess_run e (ccc_cmd e src (os_path_join d ''ccc_out'') d) w)")
  case (Returns p)
  show ?thesis
  proof (cases "returncode p = 0")
    case True
    show ?thesis
    proof (cases "os_path_join d ''ccc_out''
        \<in> files (snd (subprocess_run e (ccc_cmd e src (os_path_join d ''ccc_out'') d) w))")
      case True
      with Returns \<open>returncode p = 0\<close> show ?thesis
        by (simp add: ccc_block_present disassemble_never_raises)
    next
      case False
      with Returns \<open>returncode p = 0\<close> show ?thesis
        by (simp add: ccc_block_missing)
    qed
  next
    case False
    with Returns show ?thesis by (simp add: ccc_block_nonzero)
  qed
next
  case (Raises m')
  then show ?thesis by (simp add: ccc_block_raised)
next
  case Blocks
  then show ?thesis by (simp add: ccc_run_not_blocked)
qed



lemma compile_code_in_workspace:
  assumes nonblank: "strip (dict_get data ''code'' []) \<noteq> []"
    and dir: "mkdtemp e TEMP_DIR (temp_names e) (files w) = Inr d"
    and written: "write_error e (os_path_join d ''test.c'') (dict_get data ''code'' []) = None"
  shows "\<exists>g. fst (gcc_block e (dict_get data ''opt'' ''-O0'') (os_path_join d ''test.c'')
                    (w\<lparr>files := insert (os_path_join d ''test.c'') (insert d (files w)),
                       workspaces := workspaces w @ [d]\<rparr>)) = Returns g
           \<and> compile_code e data w =
               (case ccc_block e (os_path_join d ''test.c'') d (snd (gcc_run e data w d)) of
                  (Returns c, w2) \<Rightarrow>
                    (Returns [''gcc'' \<mapsto> g, ''ccc'' \<mapsto> c], w2\<lparr>files := rmtree d (files w2)\<rparr>)
                | (Raises m, w2) \<Rightarrow> (Raises m, w2\<lparr>files := rmtree d (files w2)\<rparr>)
                | (Blocks, w2) \<Rightarrow> (Blocks, w2))"
proof -
  let ?opt = "dict_get data ''opt'' ''-O0''"
  let ?src = "os_path_join d ''test.c''"
  let ?w0 = "w\<lparr>files := insert ?src (insert d (files w)), workspaces := workspaces w @ [d]\<rparr>"
  obtain g where g: "fst (gcc_block e ?opt ?src ?w0) = Returns g"
    using gcc_block_returns by blast
  have w1: "snd (gcc_block e ?opt ?src ?w0) = snd (gcc_run e data w d)"
    by (simp add: gcc_block_world gcc_run_def)
  from g w1 have "gcc_block e ?opt ?src ?w0 = (Returns g, snd (gcc_run e data w d))"
    by (cases "gcc_block e ?opt ?src ?w0") simp
  moreover have "?w0 = w\<lparr>workspaces := workspaces w @ [d],
                          files := insert ?src (insert d (files w))\<rparr>"
    by simp
  ultimately have gb: "gcc_block e ?opt ?src
      (w\<lparr>workspaces := workspaces w @ [d], files := insert ?src (insert d (files w))\<rparr>)
        = (Returns g, snd (gcc_run e data w d))"
    by simp
  obtain r w2 where cb: "ccc_block e ?src d (snd (gcc_run e data w d)) = (r, w2)"
    by (cases "ccc_block e ?src d (snd (gcc_run e data w d))")
  have "compile_code e data w =
      (case ccc_block e ?src d (snd (gcc_run e data w d)) of
         (Returns c, w2) \<Rightarrow>
           (Returns [''gcc'' \<mapsto> g, ''ccc'' \<mapsto> c], w2\<lparr>files := rmtree d (files w2)\<rparr>)
       | (Raises m, w2) \<Rightarrow> (Raises m, w2\<lparr>files := rmtree d (files w2)\<rparr>)
       | (Blocks, w2) \<Rightarrow> (Blocks, w2))"
    using nonblank dir written gb cb
    by (cases r) (simp_all add: compile_code_def with_body_def Let_def)
  with g show ?thesis by blast
qed

lemma disassemble_trace:
  "\<exists>rest. calls (snd (disassemble e out_bin w)) = calls w @ probe_cmd # rest
        \<and> workspaces (snd (disassemble e out_bin w)) = workspaces w
        \<and> set rest \<subseteq> {dis_cmd ''objdump'' out_bin, dis_cmd ''x86_64-linux-gnu-objdump'' out_bin}"
proof (cases "fst (select_objdump e w)")
  case (Returns tool)
  have "calls (snd (disassemble e out_bin w)) = calls w @ [probe_cmd, dis_cmd tool out_bin]"
    by (simp add: disassemble_selected(2) [OF Returns] run_calls select_objdump_world)
  moreover have "workspaces (snd (disassemble e out_bin w)) = workspaces w"
    by (simp add: disassemble_selected(2) [OF Returns] run_workspaces select_objdump_world)
  moreover have "tool = ''objdump'' \<or> tool = ''x86_64-linux-gnu-objdump''"
    using Returns by (rule select_objdump_tool)
  ultimately show ?thesis by auto
next
  case (Raises m)
  then show ?thesis
    by (simp add: select_objdump_cases split: behaviour.splits)
next
  case Blocks
  then show ?thesis
    by (simp add: disassemble_blocked select_objdump_world run_calls run_workspaces)
qed

lemma ccc_block_trace:
  "\<exists>rest. calls (snd (ccc_block e src d w))
            = calls w @ ccc_cmd e src (os_path_join d ''ccc_out'') d # rest
        \<and> workspaces (snd (ccc_block e src d w)) = workspaces w
        \<and> set rest \<subseteq> {probe_cmd, dis_cmd ''objdump'' (os_path_join d ''ccc_out''),
                        dis_cmd ''x86_64-linux-gnu-objdump'' (os_path_join d ''ccc_out'')}"
proof -
  let ?bin = "os_path_join d ''ccc_out''"
  let ?run = "subprocess_run e (ccc_cmd e src ?bin d) w"
  have direct: "ccc_block e src d w = (r, snd ?run) \<Longrightarrow> ?thesis" for r
    by (simp add: run_calls run_workspaces)
  show ?thesis
  proof (cases "fst ?run")
    case (Returns p)
    show ?thesis
    proof (cases "returncode p = 0")
      case True
      show ?thesis
      proof (cases "?bin \<in> files (snd ?run)")
        case True
        with Returns \<open>returncode p = 0\<close>
        have "ccc_block e src d w = disassemble e ?bin (snd ?run)"
          by (rule ccc_block_present)
        moreover obtain rest where
          "calls (snd (disassemble e ?bin (snd ?run))) = calls (snd ?run) @ probe_cmd # rest"
          "workspaces (snd (disassemble e ?bin (snd ?run))) = workspaces (snd ?run)"
          "set rest \<subseteq> {dis_cmd ''objdump'' ?bin, dis_cmd ''x86_64-linux-gnu-objdump'' ?bin}"
          using disassemble_trace by blast
        ultimately show ?thesis
          by (auto simp: run_calls run_workspaces)
      next
        case False
        from ccc_block_missing [OF Returns \<open>returncode p = 0\<close> False] show ?thesis
          by (rule direct)
      qed
    next
      case False
      from ccc_block_nonzero [OF Returns False] show ?thesis
        by (rule direct)
    qed
  next
    case (Raises m)
    from ccc_block_raised [OF Raises] show ?thesis
      by (rule direct)
  next
    case Blocks
    then show ?thesis by (simp add: ccc_run_not_blocked)
  qed
qed

lemma gcc_run_trace:
  "calls (snd (gcc_run e data w d))
     = calls w @ [gcc_cmd (dict_get data ''opt'' ''-O0'') (os_path_join d ''test.c'')]"
  "workspaces (snd (gcc_run e data w d)) = workspaces w @ [d]"
  by (simp_all add: gcc_run_def run_calls run_workspaces)

lemma compile_code_trace:
  assumes nonblank: "strip (dict_get data ''code'' []) \<noteq> []"
    and dir: "mkdtemp e TEMP_DIR (temp_names e) (files w) = Inr d"
    and written: "write_error e (os_path_join d ''test.c'') (dict_get data ''code'' []) = None"
  shows "\<exists>rest. calls (snd (compile_code e data w))
            = calls w @ gcc_cmd (dict_get data ''opt'' ''-O0'') (os_path_join d ''test.c'')
                # ccc_cmd e (os_path_join d ''test.c'') (os_path_join d ''ccc_out'') d # rest
        \<and> set rest \<subseteq> {probe_cmd, dis_cmd ''objdump'' (os_path_join d ''ccc_out''),
                        dis_cmd ''x86_64-linux-gnu-objdump'' (os_path_join d ''ccc_out'')}"
proof -
  let ?src = "os_path_join d ''test.c''"
  let ?block = "ccc_block e ?src d (snd (gcc_run e data w d))"
  obtain r w2 where cb: "?block = (r, w2)"
    by (cases ?block)
  from compile_code_in_workspace [OF assms] cb
  have "calls (snd (compile_code e data w)) = calls (snd ?block)"
    by (cases r) auto
  then show ?thesis
    using ccc_block_trace [of e ?src d "snd (gcc_run e data w d)"]
    by (auto simp: gcc_run_trace)
qed







section \<open>C2: the normalization of the listing\<close>

text \<open>
  C2, as the specification states it, fails on a listing with a second section: the line
  \<open>Disassembly of section .text:\<close> comes after the first marker, is not blank and has no
  tab, so the stated rule emits it unchanged, while the loop skips every line that
  contains the marker.
\<close>

theorem normalize_second_marker_counterexample:
  "normalize two_sections \<noteq> spec_normalize two_sections"
  by (simp add: text_defs two_sections_def)

text \<open>
  C2, amended. For every text of the disassembler, \<open>normalize\<close> drops the lines before the
  first line that contains the marker, drops every line that contains the marker (the
  first and any later one), drops the blank lines (empty or whitespace only), replaces
  each remaining line that has a tab by a tab followed by the text after its first tab,
  keeps each remaining line without a tab as it is, and joins the result with newlines.
  On the example listing (two header lines, the marker line for \<open>.text\<close>, then the line
  with \<open>10:\<close>, a tab and \<open>mov eax, 0\<close>) the result is a tab followed by \<open>mov eax, 0\<close>.
\<close>

theorem normalize_characterised:
  "normalize out =
     join [NL] (map strip_address (filter (\<lambda>l. \<not> contains MARKER l \<and> \<not> blank l)
       (dropWhile (\<lambda>l. \<not> contains MARKER l) (splitlines out))))
   \<and> normalize example_listing = TAB # ''mov eax, 0''"
proof (rule conjI)
  show "normalize out =
     join [NL] (map strip_address (filter (\<lambda>l. \<not> contains MARKER l \<and> \<not> blank l)
       (dropWhile (\<lambda>l. \<not> contains MARKER l) (splitlines out))))"
    by (simp add: normalize_def clean_loop_def foldl_clean_waiting)
  show "normalize example_listing = TAB # ''mov eax, 0''"
    by (rule normalize_example)
qed

section \<open>C4: a request without code\<close>

text \<open>
  C4. When the source text is empty or has only whitespace characters (also when the
  request has no \<open>code\<close> field), \<open>compile_code\<close> returns the failure \<open>No code\<close> on both
  sides, and the world is untouched: no call of \<open>subprocess.run\<close> is made, no temporary
  directory is created, no file is written.
\<close>

theorem compile_code_no_code:
  assumes "list_all isspace (dict_get data ''code'' [])"
  shows "fst (compile_code e data w)
           = Returns [''gcc'' \<mapsto> Failure ''No code'', ''ccc'' \<mapsto> Failure ''No code'']
         \<and> calls (snd (compile_code e data w)) = calls w
         \<and> workspaces (snd (compile_code e data w)) = workspaces w
         \<and> files (snd (compile_code e data w)) = files w"
  using assms by (simp add: compile_code_def strip_empty_iff)

theorem compile_code_no_code_witness:
  "list_all isspace (dict_get request_blank ''code'' [])
   \<and> fst (compile_code all_well request_blank world0)
       = Returns [''gcc'' \<mapsto> Failure ''No code'', ''ccc'' \<mapsto> Failure ''No code'']
   \<and> calls (snd (compile_code all_well request_blank world0)) = []
   \<and> workspaces (snd (compile_code all_well request_blank world0)) = []"
proof -
  have blank: "list_all isspace (dict_get request_blank ''code'' [])"
    by (simp add: request_blank_def dict_get_def isspace_def TAB_def NL_def)
  from compile_code_no_code [OF blank, of all_well world0] blank show ?thesis
    by (simp add: world0_def)
qed

section \<open>C1: the failure message of a compiler that exits non-zero\<close>

text \<open>
  Backend B's half of C1 holds: when \<open>ccc\<close> exits non-zero its failure message is its
  standard error if that is not empty, else its standard output if that is not empty,
  else \<open>Unknown CCC Error\<close>, and so never empty.
\<close>

lemma ccc_failure_message:
  assumes "fst (subprocess_run e (ccc_cmd e src (os_path_join d ''ccc_out'') d) w) = Returns p"
    and "returncode p \<noteq> 0"
  shows "\<exists>m. fst (ccc_block e src d w) = Returns (Failure m) \<and> m \<noteq> []
           \<and> m = (if stderr p \<noteq> [] then stderr p
                  else if stdout p \<noteq> [] then stdout p else ''Unknown CCC Error'')"
  using ccc_block_nonzero [OF assms] by simp

text \<open>
  C1, backend A's half, at a run in which \<open>gcc\<close> is killed by a signal: its return code is
  \<open>-9\<close> and both of its streams are empty. The first block stores \<open>proc.stderr\<close> with no
  fallback, so the failure message of \<open>gcc\<close> is the empty string. (\<open>ccc\<close>, which here
  writes its diagnostic to standard output only, gets that text as its message.)
\<close>

theorem gcc_failure_message_empty:
  "fst (compile_code gcc_killed request_main world0)
     = Returns [''gcc'' \<mapsto> Failure [], ''ccc'' \<mapsto> Failure ''error: expected expression'']"
  by (simp add: run_defs gcc_killed_def request_main_def)

section \<open>C5: the time limits of the child processes\<close>

text \<open>
  Three of the four calls carry \<open>timeout=5\<close>, and such a call never blocks: a child that
  has not ended in time makes the call raise, which the enclosing block turns into a
  failure.
\<close>

lemma timeouts_given:
  "timeout (gcc_cmd opt src) = Some 5"
  "timeout (ccc_cmd e src out_bin d) = Some 5"
  "timeout (dis_cmd tool out_bin) = Some 5"
  "timeout probe_cmd = None"
  by (simp_all add: gcc_cmd_def ccc_cmd_def dis_cmd_def probe_cmd_def)

lemma timeout_bounds_the_call:
  "timeout cmd = Some t \<Longrightarrow> fst (subprocess_run e cmd w) \<noteq> Blocks"
  by (simp add: run_blocks_iff)

text \<open>
  C5 at a run in which both compilers succeed and the probe
  \<open>x86_64-linux-gnu-objdump --version\<close> never ends: the probe is called without a
  timeout, so \<open>compile_code\<close> never returns (and the temporary directory stays).
\<close>

theorem probe_without_timeout_blocks:
  "fst (compile_code probe_hangs request_main world0) = Blocks
   \<and> last (calls (snd (compile_code probe_hangs request_main world0)))
       = \<lparr>argv = [''x86_64-linux-gnu-objdump'', ''--version''], timeout = None, cwd = None\<rparr>
   \<and> work_dir \<in> files (snd (compile_code probe_hangs request_main world0))"
  by (simp add: run_defs probe_hangs_def request_main_def)

section \<open>C10: the optimization flag given to \<open>gcc\<close>\<close>

text \<open>
  C10. Once the source is not blank, the temporary directory \<open>d\<close> exists and \<open>test.c\<close> is
  written, the first call that \<open>compile_code\<close> makes is \<open>gcc\<close> with, as its first
  argument, the request's \<open>opt\<close> string as it is (whatever the string), or \<open>-O0\<close> when the
  request has no \<open>opt\<close> field.
\<close>

theorem gcc_receives_opt:
  assumes "strip (dict_get data ''code'' []) \<noteq> []"
    and "mkdtemp e TEMP_DIR (temp_names e) (files w) = Inr d"
    and "write_error e (os_path_join d ''test.c'') (dict_get data ''code'' []) = None"
  shows "calls (snd (compile_code e data w)) ! length (calls w)
           = \<lparr>argv = [GCC_BINARY, (case data ''opt'' of None \<Rightarrow> ''-O0'' | Some s \<Rightarrow> s),
                      ''-S'', ''-fverbose-asm'', ''-o'', ''-'', os_path_join d ''test.c''],
              timeout = Some 5, cwd = None\<rparr>"
proof -
  from compile_code_trace [OF assms] obtain rest where
    "calls (snd (compile_code e data w))
       = calls w @ gcc_cmd (dict_get data ''opt'' ''-O0'') (os_path_join d ''test.c'')
           # ccc_cmd e (os_path_join d ''test.c'') (os_path_join d ''ccc_out'') d # rest"
    by blast
  then show ?thesis
    by (simp add: gcc_cmd_def dict_get_def)
qed

theorem gcc_receives_opt_witness:
  "strip (dict_get request_no_opt ''code'' []) \<noteq> []
   \<and> mkdtemp all_well TEMP_DIR (temp_names all_well) (files world0) = Inr work_dir
   \<and> write_error all_well (os_path_join work_dir ''test.c'') (dict_get request_no_opt ''code'' [])
       = None
   \<and> calls (snd (compile_code all_well request_no_opt world0)) ! length (calls world0)
       = \<lparr>argv = [''/usr/bin/gcc'', ''-O0'', ''-S'', ''-fverbose-asm'', ''-o'', ''-'',
                  ''/dev/shm/tmpk3x9q2ab/test.c''],
          timeout = Some 5, cwd = None\<rparr>
   \<and> strip (dict_get request_odd_opt ''code'' []) \<noteq> []
   \<and> write_error all_well (os_path_join work_dir ''test.c'') (dict_get request_odd_opt ''code'' [])
       = None
   \<and> calls (snd (compile_code all_well request_odd_opt world0)) ! length (calls world0)
       = \<lparr>argv = [''/usr/bin/gcc'', ''--version'', ''-S'', ''-fverbose-asm'', ''-o'', ''-'',
                  ''/dev/shm/tmpk3x9q2ab/test.c''],
          timeout = Some 5, cwd = None\<rparr>"
proof -
  have c1: "strip (dict_get request_no_opt ''code'' []) \<noteq> []"
    by (simp add: request_no_opt_def dict_get_def strip_def isspace_def)
  have c2: "strip (dict_get request_odd_opt ''code'' []) \<noteq> []"
    by (simp add: request_odd_opt_def dict_get_def strip_def isspace_def)
  have d: "mkdtemp all_well TEMP_DIR (temp_names all_well) (files world0) = Inr work_dir"
    by (simp add: all_well_def host_def world0_def TEMP_DIR_def work_dir_def os_path_join_def)
  have w1: "write_error all_well (os_path_join work_dir ''test.c'')
              (dict_get request_no_opt ''code'' []) = None"
    by (simp add: all_well_def host_def)
  have w2: "write_error all_well (os_path_join work_dir ''test.c'')
              (dict_get request_odd_opt ''code'' []) = None"
    by (simp add: all_well_def host_def)
  from gcc_receives_opt [OF c1 d w1] gcc_receives_opt [OF c2 d w2] c1 c2 d w1 w2
  show ?thesis
    by (simp add: request_no_opt_def request_odd_opt_def GCC_BINARY_def work_dir_def
        os_path_join_def)
qed

section \<open>C7: the command line of \<open>ccc\<close>\<close>

lemma CCC_BINARY_ends: "\<exists>pre. CCC_BINARY e = pre @ ''/ccc''"
proof -
  have "CCC_BINARY e = (base_dir e @ ''claudes-c-compiler/target/release'') @ ''/ccc''
      \<or> CCC_BINARY e = (base_dir e @ ''/claudes-c-compiler/target/release'') @ ''/ccc''"
    by (simp add: CCC_BINARY_def os_path_join_def)
  then show ?thesis by blast
qed

lemma CCC_BINARY_other:
  "CCC_BINARY e \<noteq> GCC_BINARY"
  "CCC_BINARY e \<noteq> ''objdump''"
  "CCC_BINARY e \<noteq> ''x86_64-linux-gnu-objdump''"
proof -
  obtain pre where pre: "CCC_BINARY e = pre @ ''/ccc''"
    using CCC_BINARY_ends by blast
  have r: "rev (CCC_BINARY e) = ''ccc/'' @ rev pre"
    by (simp add: pre)
  show "CCC_BINARY e \<noteq> GCC_BINARY"
  proof
    assume "CCC_BINARY e = GCC_BINARY"
    then have "rev (CCC_BINARY e) = rev GCC_BINARY" by simp
    with r show False by (simp add: GCC_BINARY_def)
  qed
  show "CCC_BINARY e \<noteq> ''objdump''"
  proof
    assume "CCC_BINARY e = ''objdump''"
    then have "rev (CCC_BINARY e) = rev ''objdump''" by simp
    with r show False by simp
  qed
  show "CCC_BINARY e \<noteq> ''x86_64-linux-gnu-objdump''"
  proof
    assume "CCC_BINARY e = ''x86_64-linux-gnu-objdump''"
    then have "rev (CCC_BINARY e) = rev ''x86_64-linux-gnu-objdump''" by simp
    with r show False by simp
  qed
qed

text \<open>
  C7. Once the source is not blank, the temporary directory \<open>d\<close> exists and \<open>test.c\<close> is
  written, the second call that \<open>compile_code\<close> makes is \<open>ccc\<close> with exactly the
  arguments \<open>-c d/test.c -o d/ccc_out\<close>, and every call of this request whose program is
  \<open>ccc\<close> has exactly this command line. The request's \<open>opt\<close> string does not occur in it,
  whatever the request.
\<close>

theorem ccc_called_without_opt:
  assumes "strip (dict_get data ''code'' []) \<noteq> []"
    and "mkdtemp e TEMP_DIR (temp_names e) (files w) = Inr d"
    and "write_error e (os_path_join d ''test.c'') (dict_get data ''code'' []) = None"
  shows "calls (snd (compile_code e data w)) ! Suc (length (calls w))
           = \<lparr>argv = [CCC_BINARY e, ''-c'', os_path_join d ''test.c'',
                      ''-o'', os_path_join d ''ccc_out''],
              timeout = Some 5, cwd = Some d\<rparr>
         \<and> (\<forall>c \<in> set (drop (length (calls w)) (calls (snd (compile_code e data w)))).
               hd (argv c) = CCC_BINARY e \<longrightarrow>
               argv c = [CCC_BINARY e, ''-c'', os_path_join d ''test.c'',
                         ''-o'', os_path_join d ''ccc_out''])"
proof -
  let ?gcc = "gcc_cmd (dict_get data ''opt'' ''-O0'') (os_path_join d ''test.c'')"
  let ?ccc = "ccc_cmd e (os_path_join d ''test.c'') (os_path_join d ''ccc_out'') d"
  let ?bin = "os_path_join d ''ccc_out''"
  from compile_code_trace [OF assms] obtain rest where
    tr: "calls (snd (compile_code e data w)) = calls w @ ?gcc # ?ccc # rest"
    and rest: "set rest \<subseteq> {probe_cmd, dis_cmd ''objdump'' ?bin,
                            dis_cmd ''x86_64-linux-gnu-objdump'' ?bin}"
    by blast
  have second: "calls (snd (compile_code e data w)) ! Suc (length (calls w)) = ?ccc"
    by (simp add: tr nth_append)
  have others: "hd (argv c) \<noteq> CCC_BINARY e" if "c = ?gcc \<or> c \<in> set rest" for c
  proof -
    from that rest
    have "c = ?gcc \<or> c = probe_cmd \<or> c = dis_cmd ''objdump'' ?bin
          \<or> c = dis_cmd ''x86_64-linux-gnu-objdump'' ?bin"
      by auto
    then show ?thesis
      using CCC_BINARY_other [of e]
      by (auto simp: gcc_cmd_def probe_cmd_def dis_cmd_def)
  qed
  have "argv c = argv ?ccc"
    if "c \<in> set (?gcc # ?ccc # rest)" and "hd (argv c) = CCC_BINARY e" for c
    using that others [of c] by auto
  then show ?thesis
    using second by (simp add: tr ccc_cmd_def)
qed

theorem ccc_called_without_opt_witness:
  "strip (dict_get request_main ''code'' []) \<noteq> []
   \<and> mkdtemp all_well TEMP_DIR (temp_names all_well) (files world0) = Inr work_dir
   \<and> write_error all_well (os_path_join work_dir ''test.c'') (dict_get request_main ''code'' [])
       = None
   \<and> calls (snd (compile_code all_well request_main world0)) ! Suc (length (calls world0))
       = \<lparr>argv = [''/srv/app/claudes-c-compiler/target/release/ccc'', ''-c'',
                  ''/dev/shm/tmpk3x9q2ab/test.c'', ''-o'', ''/dev/shm/tmpk3x9q2ab/ccc_out''],
          timeout = Some 5, cwd = Some ''/dev/shm/tmpk3x9q2ab''\<rparr>"
proof -
  have c: "strip (dict_get request_main ''code'' []) \<noteq> []"
    by (simp add: request_main_def dict_get_def strip_def isspace_def)
  have d: "mkdtemp all_well TEMP_DIR (temp_names all_well) (files world0) = Inr work_dir"
    by (simp add: all_well_def host_def world0_def TEMP_DIR_def work_dir_def os_path_join_def)
  have wr: "write_error all_well (os_path_join work_dir ''test.c'')
              (dict_get request_main ''code'' []) = None"
    by (simp add: all_well_def host_def)
  from ccc_called_without_opt [OF c d wr] have
    "calls (snd (compile_code all_well request_main world0)) ! Suc (length (calls world0))
       = \<lparr>argv = [CCC_BINARY all_well, ''-c'', os_path_join work_dir ''test.c'',
                  ''-o'', os_path_join work_dir ''ccc_out''],
          timeout = Some 5, cwd = Some work_dir\<rparr>"
    by (rule conjunct1)
  with c d wr show ?thesis
    by (simp add: CCC_BINARY_def all_well_def host_def work_dir_def os_path_join_def)
qed

section \<open>C8: \<open>ccc\<close> exits 0 and leaves no binary\<close>

lemma compile_code_ccc_side:
  assumes "strip (dict_get data ''code'' []) \<noteq> []"
    and "mkdtemp e TEMP_DIR (temp_names e) (files w) = Inr d"
    and "write_error e (os_path_join d ''test.c'') (dict_get data ''code'' []) = None"
    and "fst (ccc_block e (os_path_join d ''test.c'') d (snd (gcc_run e data w d))) = Returns c"
  shows "\<exists>g w'. compile_code e data w = (Returns [''gcc'' \<mapsto> g, ''ccc'' \<mapsto> c], w')"
proof -
  obtain w2 where "ccc_block e (os_path_join d ''test.c'') d (snd (gcc_run e data w d))
      = (Returns c, w2)"
    using assms(4) by (cases "ccc_block e (os_path_join d ''test.c'') d (snd (gcc_run e data w d))") simp
  with compile_code_in_workspace [OF assms(1-3)] show ?thesis
    by auto
qed

text \<open>
  C8. When the \<open>ccc\<close> call returns with return code 0 and \<open>d/ccc_out\<close> does not exist
  afterwards, \<open>compile_code\<close> returns, and backend B's side is the failure
  \<open>Binary missing\<close>: not a success, and not the text of a compiler diagnostic.
\<close>

theorem binary_missing_reported:
  assumes "strip (dict_get data ''code'' []) \<noteq> []"
    and "mkdtemp e TEMP_DIR (temp_names e) (files w) = Inr d"
    and "write_error e (os_path_join d ''test.c'') (dict_get data ''code'' []) = None"
    and "fst (ccc_run e data w d) = Returns p"
    and "returncode p = 0"
    and "os_path_join d ''ccc_out'' \<notin> files (snd (ccc_run e data w d))"
  shows "\<exists>g w'. compile_code e data w
           = (Returns [''gcc'' \<mapsto> g, ''ccc'' \<mapsto> Failure ''Binary missing''], w')"
proof -
  have "fst (ccc_block e (os_path_join d ''test.c'') d (snd (gcc_run e data w d)))
      = Returns (Failure ''Binary missing'')"
    using assms(4-6) by (simp add: ccc_run_def ccc_block_missing)
  with assms(1-3) show ?thesis
    by (rule compile_code_ccc_side)
qed

theorem binary_missing_reported_witness:
  "strip (dict_get request_main ''code'' []) \<noteq> []
   \<and> mkdtemp gcc_slow_no_binary TEMP_DIR (temp_names gcc_slow_no_binary) (files world0)
       = Inr work_dir
   \<and> write_error gcc_slow_no_binary (os_path_join work_dir ''test.c'')
       (dict_get request_main ''code'' []) = None
   \<and> fst (ccc_run gcc_slow_no_binary request_main world0 work_dir)
       = Returns \<lparr>returncode = 0, stdout = [], stderr = []\<rparr>
   \<and> os_path_join work_dir ''ccc_out''
       \<notin> files (snd (ccc_run gcc_slow_no_binary request_main world0 work_dir))
   \<and> (\<exists>g w'. compile_code gcc_slow_no_binary request_main world0
         = (Returns [''gcc'' \<mapsto> g, ''ccc'' \<mapsto> Failure ''Binary missing''], w'))"
proof -
  have c: "strip (dict_get request_main ''code'' []) \<noteq> []"
    by (simp add: request_main_def dict_get_def strip_def isspace_def)
  have d: "mkdtemp gcc_slow_no_binary TEMP_DIR (temp_names gcc_slow_no_binary) (files world0)
      = Inr work_dir"
    by (simp add: gcc_slow_no_binary_def host_def world0_def TEMP_DIR_def work_dir_def
        os_path_join_def)
  have wr: "write_error gcc_slow_no_binary (os_path_join work_dir ''test.c'')
      (dict_get request_main ''code'' []) = None"
    by (simp add: gcc_slow_no_binary_def host_def)
  have run: "fst (ccc_run gcc_slow_no_binary request_main world0 work_dir)
      = Returns \<lparr>returncode = 0, stdout = [], stderr = []\<rparr>"
    by (simp add: run_defs gcc_slow_no_binary_def request_main_def)
  have rc: "returncode \<lparr>returncode = 0, stdout = [], stderr = []\<rparr> = 0"
    by simp
  have missing: "os_path_join work_dir ''ccc_out''
      \<notin> files (snd (ccc_run gcc_slow_no_binary request_main world0 work_dir))"
    by (simp add: run_defs gcc_slow_no_binary_def request_main_def)
  from binary_missing_reported [OF c d wr run rc missing] c d wr run missing
  show ?thesis by simp
qed

section \<open>C6: the choice of the disassembler\<close>

lemma select_objdump_by_run:
  "fst (subprocess_run e probe_cmd w) = Raises m \<Longrightarrow> fst (select_objdump e w) = Returns ''objdump''"
  "fst (subprocess_run e probe_cmd w) = Returns q
     \<Longrightarrow> fst (select_objdump e w) = Returns ''x86_64-linux-gnu-objdump''"
  by (cases "subprocess_run e probe_cmd w"; simp add: select_objdump_def)+

lemma compile_code_disassembles:
  assumes "strip (dict_get data ''code'' []) \<noteq> []"
    and "mkdtemp e TEMP_DIR (temp_names e) (files w) = Inr d"
    and "write_error e (os_path_join d ''test.c'') (dict_get data ''code'' []) = None"
    and "fst (ccc_run e data w d) = Returns p"
    and "returncode p = 0"
    and "os_path_join d ''ccc_out'' \<in> files (snd (ccc_run e data w d))"
    and "fst (select_objdump e (snd (ccc_run e data w d))) = Returns tool"
  shows "calls (snd (compile_code e data w))
           = calls w @ [gcc_cmd (dict_get data ''opt'' ''-O0'') (os_path_join d ''test.c''),
                        ccc_cmd e (os_path_join d ''test.c'') (os_path_join d ''ccc_out'') d,
                        probe_cmd, dis_cmd tool (os_path_join d ''ccc_out'')]"
    and "ccc_block e (os_path_join d ''test.c'') d (snd (gcc_run e data w d))
           = disassemble e (os_path_join d ''ccc_out'') (snd (ccc_run e data w d))"
proof -
  let ?src = "os_path_join d ''test.c''"
  let ?bin = "os_path_join d ''ccc_out''"
  let ?block = "ccc_block e ?src d (snd (gcc_run e data w d))"
  show block: "?block = disassemble e ?bin (snd (ccc_run e data w d))"
    using assms(4-6) by (simp add: ccc_run_def ccc_block_present)
  obtain r w2 where cb: "?block = (r, w2)"
    by (cases ?block)
  from compile_code_in_workspace [OF assms(1-3)] cb
  have "calls (snd (compile_code e data w)) = calls (snd ?block)"
    by (cases r) auto
  also have "\<dots> = calls (snd (ccc_run e data w d)) @ [probe_cmd, dis_cmd tool ?bin]"
    by (simp add: block disassemble_selected(2) [OF assms(7)] run_calls select_objdump_world)
  also have "calls (snd (ccc_run e data w d))
      = calls w @ [gcc_cmd (dict_get data ''opt'' ''-O0'') ?src, ccc_cmd e ?src ?bin d]"
    by (simp add: ccc_run_def run_calls gcc_run_trace)
  finally show "calls (snd (compile_code e data w))
      = calls w @ [gcc_cmd (dict_get data ''opt'' ''-O0'') ?src, ccc_cmd e ?src ?bin d,
                   probe_cmd, dis_cmd tool ?bin]"
    by simp
qed

text \<open>
  C6, as stated, has the pipeline fall back to the system \<open>objdump\<close> whenever the cross
  tool errors when probed. Here the cross tool is installed but broken: the probe
  \<open>x86_64-linux-gnu-objdump --version\<close> runs and exits with status 127. The code does not
  read the probe's return code, so it still disassembles with the cross tool (the fourth
  call), and backend B ends with that tool's failure although the system \<open>objdump\<close>
  works.
\<close>

theorem broken_cross_objdump_selected_counterexample:
  "fst (probe_run cross_objdump_broken request_main world0 work_dir)
     = Returns \<lparr>returncode = 127, stdout = [],
                stderr = ''error while loading shared libraries''\<rparr>
   \<and> calls (snd (compile_code cross_objdump_broken request_main world0)) ! 3
     = \<lparr>argv = [''x86_64-linux-gnu-objdump'', ''-d'', ''-M'', ''intel'', ''--no-show-raw-insn'',
                ''/dev/shm/tmpk3x9q2ab/ccc_out''],
        timeout = Some 5, cwd = None\<rparr>
   \<and> fst (compile_code cross_objdump_broken request_main world0)
     = Returns [''gcc'' \<mapsto> Success ''main:'',
                ''ccc'' \<mapsto> Failure ''Objdump failed: error while loading shared libraries'']"
  by (simp add: run_defs cross_objdump_broken_def request_main_def)

text \<open>
  C6, amended. When \<open>ccc\<close> has exited 0 and its binary exists, the third call of
  \<open>compile_code\<close> is the probe \<open>x86_64-linux-gnu-objdump --version\<close>. The cross tool is
  preferred: whenever the probing call returns, with whatever exit status, the fourth and
  last call disassembles the binary with \<open>x86_64-linux-gnu-objdump\<close>. The fallback is
  taken whenever the probing call raises (the tool is not installed or cannot be
  started): then the fourth and last call disassembles the binary with the system
  \<open>objdump\<close>.
\<close>

theorem objdump_chosen_by_probe_call:
  assumes "strip (dict_get data ''code'' []) \<noteq> []"
    and "mkdtemp e TEMP_DIR (temp_names e) (files w) = Inr d"
    and "write_error e (os_path_join d ''test.c'') (dict_get data ''code'' []) = None"
    and "fst (ccc_run e data w d) = Returns p"
    and "returncode p = 0"
    and "os_path_join d ''ccc_out'' \<in> files (snd (ccc_run e data w d))"
  shows "(\<forall>q. fst (probe_run e data w d) = Returns q \<longrightarrow>
            drop (length (calls w) + 2) (calls (snd (compile_code e data w)))
              = [\<lparr>argv = [''x86_64-linux-gnu-objdump'', ''--version''],
                  timeout = None, cwd = None\<rparr>,
                 \<lparr>argv = [''x86_64-linux-gnu-objdump'', ''-d'', ''-M'', ''intel'',
                          ''--no-show-raw-insn'', os_path_join d ''ccc_out''],
                  timeout = Some 5, cwd = None\<rparr>])
       \<and> (\<forall>m. fst (probe_run e data w d) = Raises m \<longrightarrow>
            drop (length (calls w) + 2) (calls (snd (compile_code e data w)))
              = [\<lparr>argv = [''x86_64-linux-gnu-objdump'', ''--version''],
                  timeout = None, cwd = None\<rparr>,
                 \<lparr>argv = [''objdump'', ''-d'', ''-M'', ''intel'',
                          ''--no-show-raw-insn'', os_path_join d ''ccc_out''],
                  timeout = Some 5, cwd = None\<rparr>])"
proof -
  let ?w2 = "snd (ccc_run e data w d)"
  have last_two: "drop (length (calls w) + 2) (calls (snd (compile_code e data w)))
      = [\<lparr>argv = [''x86_64-linux-gnu-objdump'', ''--version''], timeout = None, cwd = None\<rparr>,
         \<lparr>argv = [tool, ''-d'', ''-M'', ''intel'', ''--no-show-raw-insn'',
                  os_path_join d ''ccc_out''],
          timeout = Some 5, cwd = None\<rparr>]"
    if "fst (select_objdump e ?w2) = Returns tool" for tool
    using compile_code_disassembles(1) [OF assms that]
    by (simp add: probe_cmd_def dis_cmd_def)
  show ?thesis
  proof (intro conjI allI impI)
    fix q
    assume "fst (probe_run e data w d) = Returns q"
    then have "fst (select_objdump e ?w2) = Returns ''x86_64-linux-gnu-objdump''"
      unfolding probe_run_def by (rule select_objdump_by_run(2))
    then show "drop (length (calls w) + 2) (calls (snd (compile_code e data w)))
      = [\<lparr>argv = [''x86_64-linux-gnu-objdump'', ''--version''], timeout = None, cwd = None\<rparr>,
         \<lparr>argv = [''x86_64-linux-gnu-objdump'', ''-d'', ''-M'', ''intel'',
                  ''--no-show-raw-insn'', os_path_join d ''ccc_out''],
          timeout = Some 5, cwd = None\<rparr>]"
      by (rule last_two)
  next
    fix m
    assume "fst (probe_run e data w d) = Raises m"
    then have "fst (select_objdump e ?w2) = Returns ''objdump''"
      unfolding probe_run_def by (rule select_objdump_by_run(1))
    then show "drop (length (calls w) + 2) (calls (snd (compile_code e data w)))
      = [\<lparr>argv = [''x86_64-linux-gnu-objdump'', ''--version''], timeout = None, cwd = None\<rparr>,
         \<lparr>argv = [''objdump'', ''-d'', ''-M'', ''intel'',
                  ''--no-show-raw-insn'', os_path_join d ''ccc_out''],
          timeout = Some 5, cwd = None\<rparr>]"
      by (rule last_two)
  qed
qed

theorem objdump_chosen_by_probe_call_witness:
  "strip (dict_get request_main ''code'' []) \<noteq> []
   \<and> mkdtemp all_well TEMP_DIR (temp_names all_well) (files world0) = Inr work_dir
   \<and> write_error all_well (os_path_join work_dir ''test.c'') (dict_get request_main ''code'' [])
       = None
   \<and> fst (ccc_run all_well request_main world0 work_dir)
       = Returns \<lparr>returncode = 0, stdout = [], stderr = []\<rparr>
   \<and> os_path_join work_dir ''ccc_out'' \<in> files (snd (ccc_run all_well request_main world0 work_dir))
   \<and> fst (probe_run all_well request_main world0 work_dir)
       = Returns \<lparr>returncode = 0, stdout = ''GNU objdump'', stderr = []\<rparr>
   \<and> drop (length (calls world0) + 2) (calls (snd (compile_code all_well request_main world0)))
       = [\<lparr>argv = [''x86_64-linux-gnu-objdump'', ''--version''], timeout = None, cwd = None\<rparr>,
          \<lparr>argv = [''x86_64-linux-gnu-objdump'', ''-d'', ''-M'', ''intel'',
                   ''--no-show-raw-insn'', ''/dev/shm/tmpk3x9q2ab/ccc_out''],
           timeout = Some 5, cwd = None\<rparr>]
   \<and> mkdtemp no_cross_objdump TEMP_DIR (temp_names no_cross_objdump) (files world0) = Inr work_dir
   \<and> write_error no_cross_objdump (os_path_join work_dir ''test.c'')
       (dict_get request_main ''code'' []) = None
   \<and> fst (ccc_run no_cross_objdump request_main world0 work_dir)
       = Returns \<lparr>returncode = 0, stdout = [], stderr = []\<rparr>
   \<and> os_path_join work_dir ''ccc_out''
       \<in> files (snd (ccc_run no_cross_objdump request_main world0 work_dir))
   \<and> fst (probe_run no_cross_objdump request_main world0 work_dir)
       = Raises ''[Errno 2] No such file or directory''
   \<and> drop (length (calls world0) + 2)
        (calls (snd (compile_code no_cross_objdump request_main world0)))
       = [\<lparr>argv = [''x86_64-linux-gnu-objdump'', ''--version''], timeout = None, cwd = None\<rparr>,
          \<lparr>argv = [''objdump'', ''-d'', ''-M'', ''intel'',
                   ''--no-show-raw-insn'', ''/dev/shm/tmpk3x9q2ab/ccc_out''],
           timeout = Some 5, cwd = None\<rparr>]"
proof -
  have c: "strip (dict_get request_main ''code'' []) \<noteq> []"
    by (simp add: request_main_def dict_get_def strip_def isspace_def)
  have bin: "os_path_join work_dir ''ccc_out'' = ''/dev/shm/tmpk3x9q2ab/ccc_out''"
    by (simp add: os_path_join_def work_dir_def)
  have rc: "returncode \<lparr>returncode = 0, stdout = [], stderr = []\<rparr> = 0"
    by simp
  have d1: "mkdtemp all_well TEMP_DIR (temp_names all_well) (files world0) = Inr work_dir"
    by (simp add: all_well_def host_def world0_def TEMP_DIR_def work_dir_def os_path_join_def)
  have w1: "write_error all_well (os_path_join work_dir ''test.c'')
      (dict_get request_main ''code'' []) = None"
    by (simp add: all_well_def host_def)
  have r1: "fst (ccc_run all_well request_main world0 work_dir)
      = Returns \<lparr>returncode = 0, stdout = [], stderr = []\<rparr>"
    by (simp add: run_defs all_well_def request_main_def)
  have b1: "os_path_join work_dir ''ccc_out''
      \<in> files (snd (ccc_run all_well request_main world0 work_dir))"
    by (simp add: run_defs all_well_def request_main_def)
  have p1: "fst (probe_run all_well request_main world0 work_dir)
      = Returns \<lparr>returncode = 0, stdout = ''GNU objdump'', stderr = []\<rparr>"
    by (simp add: run_defs all_well_def request_main_def)
  have d2: "mkdtemp no_cross_objdump TEMP_DIR (temp_names no_cross_objdump) (files world0)
      = Inr work_dir"
    by (simp add: no_cross_objdump_def host_def world0_def TEMP_DIR_def work_dir_def
        os_path_join_def)
  have w2: "write_error no_cross_objdump (os_path_join work_dir ''test.c'')
      (dict_get request_main ''code'' []) = None"
    by (simp add: no_cross_objdump_def host_def)
  have r2: "fst (ccc_run no_cross_objdump request_main world0 work_dir)
      = Returns \<lparr>returncode = 0, stdout = [], stderr = []\<rparr>"
    by (simp add: run_defs no_cross_objdump_def request_main_def)
  have b2: "os_path_join work_dir ''ccc_out''
      \<in> files (snd (ccc_run no_cross_objdump request_main world0 work_dir))"
    by (simp add: run_defs no_cross_objdump_def request_main_def)
  have p2: "fst (probe_run no_cross_objdump request_main world0 work_dir)
      = Raises ''[Errno 2] No such file or directory''"
    by (simp add: run_defs no_cross_objdump_def request_main_def)
  from objdump_chosen_by_probe_call [OF c d1 w1 r1 rc b1] p1
  have k1: "drop (length (calls world0) + 2)
      (calls (snd (compile_code all_well request_main world0)))
       = [\<lparr>argv = [''x86_64-linux-gnu-objdump'', ''--version''], timeout = None, cwd = None\<rparr>,
          \<lparr>argv = [''x86_64-linux-gnu-objdump'', ''-d'', ''-M'', ''intel'',
                   ''--no-show-raw-insn'', ''/dev/shm/tmpk3x9q2ab/ccc_out''],
           timeout = Some 5, cwd = None\<rparr>]"
    by (simp only: bin)
  from objdump_chosen_by_probe_call [OF c d2 w2 r2 rc b2] p2
  have k2: "drop (length (calls world0) + 2)
      (calls (snd (compile_code no_cross_objdump request_main world0)))
       = [\<lparr>argv = [''x86_64-linux-gnu-objdump'', ''--version''], timeout = None, cwd = None\<rparr>,
          \<lparr>argv = [''objdump'', ''-d'', ''-M'', ''intel'',
                   ''--no-show-raw-insn'', ''/dev/shm/tmpk3x9q2ab/ccc_out''],
           timeout = Some 5, cwd = None\<rparr>]"
    by (simp only: bin)
  from c d1 w1 r1 b1 p1 k1 d2 w2 r2 b2 p2 k2 show ?thesis
    by (intro conjI)
qed

section \<open>C9: the life of the temporary directory\<close>





section \<open>C3: failures stay with their backend\<close>




lemma gcc_run_not_blocked: "fst (gcc_run e data w d) \<noteq> Blocks"
  by (simp add: gcc_run_def run_blocks_iff gcc_cmd_def)



end
